theory Spec2Isabelle
  imports Main "HOL-Library.AList"
begin

section \<open>Strings of the host language\<close>

text \<open>
  The component is written in TypeScript. A parameter declared \<open>string\<close> is modelled as
  \<^typ>\<open>string\<close>; an optional parameter (\<open>previousLabel?: string\<close>), an environment
  variable and a function result that may be \<open>null\<close> are modelled as
  \<^typ>\<open>string option\<close>, with \<open>None\<close> for \<open>null\<close>/\<open>undefined\<close>.
  A condition \<open>if (s)\<close> on a string holds exactly when the string is present and
  not empty.
\<close>

definition truthy :: "string \<Rightarrow> bool" where
  "truthy s \<longleftrightarrow> s \<noteq> []"

definition truthy_opt :: "string option \<Rightarrow> bool" where
  "truthy_opt s = (case s of None \<Rightarrow> False | Some t \<Rightarrow> truthy t)"

section \<open>Module Utilities\<close>

definition DEPLOYMENT_SUCCEEDED :: string where
  "DEPLOYMENT_SUCCEEDED = ''DeploymentSucceeded''"

definition DEPLOYMENT_FAILED :: string where
  "DEPLOYMENT_FAILED = ''DeploymentFailed''"

definition ACTIVE :: string where
  "ACTIVE = ''Active''"

definition DOWNLOADED :: string where
  "DOWNLOADED = ''Downloaded''"

definition isValidDeploymentStatus :: "string \<Rightarrow> bool" where
  "isValidDeploymentStatus status \<longleftrightarrow>
     status = DEPLOYMENT_SUCCEEDED \<or> status = DEPLOYMENT_FAILED \<or> status = DOWNLOADED"

definition getLabelStatusField :: "string \<Rightarrow> string \<Rightarrow> string option" where
  "getLabelStatusField label status =
     (if isValidDeploymentStatus status then Some (label @ '':'' @ status) else None)"

definition getLabelActiveCountField :: "string \<Rightarrow> string option" where
  "getLabelActiveCountField label =
     (if truthy label then Some (label @ '':'' @ ACTIVE) else None)"

definition getDeploymentKeyHash :: "string \<Rightarrow> string" where
  "getDeploymentKeyHash deploymentKey = ''deploymentKey:'' @ deploymentKey"

definition getDeploymentKeyLabelsHash :: "string \<Rightarrow> string" where
  "getDeploymentKeyLabelsHash deploymentKey = ''deploymentKeyLabels:'' @ deploymentKey"

definition getDeploymentKeyClientsHash :: "string \<Rightarrow> string" where
  "getDeploymentKeyClientsHash deploymentKey = ''deploymentKeyClients:'' @ deploymentKey"

section \<open>Decimal integers of the store\<close>

text \<open>
  The store keeps every hash value as text. Its increment command reads the text as a
  signed 64-bit decimal integer (an optional minus sign, no plus sign, no leading zero,
  no blanks) and writes the sum back as decimal text.
\<close>

definition digit_char :: "nat \<Rightarrow> char" where
  "digit_char d = ''0123456789'' ! d"

definition digit_val :: "char \<Rightarrow> nat option" where
  "digit_val c = map_of (zip ''0123456789'' [0, 1, 2, 3, 4, 5, 6, 7, 8, 9]) c"

fun digits_of_nat :: "nat \<Rightarrow> string" where
  "digits_of_nat n =
     (if n < 10 then [digit_char n] else digits_of_nat (n div 10) @ [digit_char (n mod 10)])"

declare digits_of_nat.simps [simp del]

fun parse_digits :: "nat \<Rightarrow> string \<Rightarrow> nat option" where
  "parse_digits acc [] = Some acc"
| "parse_digits acc (c # cs) =
     (case digit_val c of None \<Rightarrow> None | Some d \<Rightarrow> parse_digits (10 * acc + d) cs)"

definition LLONG_MAX :: int where
  "LLONG_MAX = 9223372036854775807"

definition LLONG_MIN :: int where
  "LLONG_MIN = - 9223372036854775808"

definition in_ll_range :: "int \<Rightarrow> bool" where
  "in_ll_range i \<longleftrightarrow> LLONG_MIN \<le> i \<and> i \<le> LLONG_MAX"

definition ll2string :: "int \<Rightarrow> string" where
  "ll2string i = (if i < 0 then CHR ''-'' # digits_of_nat (nat (- i)) else digits_of_nat (nat i))"

definition checked_ll :: "int \<Rightarrow> int option" where
  "checked_ll i = (if in_ll_range i then Some i else None)"

definition string2ll :: "string \<Rightarrow> int option" where
  "string2ll s =
     (case s of
        [] \<Rightarrow> None
      | c # cs \<Rightarrow>
          if c = CHR ''-'' then
            (case cs of
               [] \<Rightarrow> None
             | d # ds \<Rightarrow>
                 if d = CHR ''0'' then None
                 else (case parse_digits 0 cs of None \<Rightarrow> None | Some n \<Rightarrow> checked_ll (- int n)))
          else if c = CHR ''0'' then (if cs = [] then Some 0 else None)
          else (case parse_digits 0 s of None \<Rightarrow> None | Some n \<Rightarrow> checked_ll (int n)))"

section \<open>The key-value store\<close>

text \<open>
  The store is the external collaborator the component talks to. It is modelled by the
  standard meaning of the commands the component uses: a logical database maps a key to
  a string or to a hash (fields with text values, in insertion order), with an optional
  time to live. A hash never stays empty: deleting its last field deletes the key.
  No time passes inside the model, so a time to live is recorded and never fires.
\<close>

type_synonym hash = "(string \<times> string) list"

datatype rvalue = RString string | RHash hash

datatype entry = Entry (val: rvalue) (ttl: "nat option")

type_synonym database = "string \<Rightarrow> entry option"

text \<open>
  The outcomes of an operation other than success. The last one is not an error that is
  raised: it stands for a promise that is neither resolved nor rejected, so that no
  continuation chained to it ever runs and the caller is never answered.
\<close>

datatype error =
    NotEnabled
  | ConnectionError
  | InvalidArgument
  | WrongType
  | NotAnInteger
  | Overflow
  | SyntaxError
  | TypeError
  | NeverSettles

definition hash_at :: "database \<Rightarrow> string \<Rightarrow> error + hash" where
  "hash_at db key =
     (case db key of
        None \<Rightarrow> Inr []
      | Some e \<Rightarrow> (case val e of RHash h \<Rightarrow> Inr h | RString _ \<Rightarrow> Inl WrongType))"

definition put_hash :: "database \<Rightarrow> string \<Rightarrow> hash \<Rightarrow> database" where
  "put_hash db key h =
     (if h = [] then db(key := None)
      else db(key := Some (Entry (RHash h) (case db key of None \<Rightarrow> None | Some e \<Rightarrow> ttl e))))"

text \<open>The integer a hash field stands for: a field that is not there counts as 0.\<close>

definition count_of :: "hash \<Rightarrow> string \<Rightarrow> int option" where
  "count_of h field = (case map_of h field of None \<Rightarrow> Some 0 | Some s \<Rightarrow> string2ll s)"

definition counter :: "database \<Rightarrow> string \<Rightarrow> string \<Rightarrow> int option" where
  "counter db key field = (case hash_at db key of Inl e \<Rightarrow> None | Inr h \<Rightarrow> count_of h field)"

definition db_del :: "string list \<Rightarrow> database \<Rightarrow> (error + nat) \<times> database" where
  "db_del keys db =
     (Inr (length (filter (\<lambda>k. db k \<noteq> None) (remdups keys))),
      (\<lambda>k. if k \<in> set keys then None else db k))"

definition db_exists :: "string list \<Rightarrow> database \<Rightarrow> (error + nat) \<times> database" where
  "db_exists keys db = (Inr (length (filter (\<lambda>k. db k \<noteq> None) keys)), db)"

definition db_expire :: "string \<Rightarrow> nat \<Rightarrow> database \<Rightarrow> (error + nat) \<times> database" where
  "db_expire key seconds db =
     (case db key of
        None \<Rightarrow> (Inr 0, db)
      | Some e \<Rightarrow>
          if seconds = 0 then (Inr 1, db(key := None))
          else (Inr 1, db(key := Some (Entry (val e) (Some seconds)))))"

definition db_hDel :: "string \<Rightarrow> string \<Rightarrow> database \<Rightarrow> (error + nat) \<times> database" where
  "db_hDel key field db =
     (case hash_at db key of
        Inl e \<Rightarrow> (Inl e, db)
      | Inr h \<Rightarrow>
          (case map_of h field of
             None \<Rightarrow> (Inr 0, db)
           | Some _ \<Rightarrow> (Inr 1, put_hash db key (AList.delete field h))))"

definition db_hGet :: "string \<Rightarrow> string \<Rightarrow> database \<Rightarrow> (error + string option) \<times> database" where
  "db_hGet key field db =
     (case hash_at db key of
        Inl e \<Rightarrow> (Inl e, db)
      | Inr h \<Rightarrow> (Inr (map_of h field), db))"

definition db_hGetAll :: "string \<Rightarrow> database \<Rightarrow> (error + hash) \<times> database" where
  "db_hGetAll key db =
     (case hash_at db key of
        Inl e \<Rightarrow> (Inl e, db)
      | Inr h \<Rightarrow> (Inr h, db))"

definition db_hIncrBy :: "string \<Rightarrow> string \<Rightarrow> int \<Rightarrow> database \<Rightarrow> (error + int) \<times> database" where
  "db_hIncrBy key field incr db =
     (case hash_at db key of
        Inl e \<Rightarrow> (Inl e, db)
      | Inr h \<Rightarrow>
          (case count_of h field of
             None \<Rightarrow> (Inl NotAnInteger, db)
           | Some v \<Rightarrow>
               if in_ll_range (v + incr)
               then (Inr (v + incr), put_hash db key (AList.update field (ll2string (v + incr)) h))
               else (Inl Overflow, db)))"

definition db_hSet :: "string \<Rightarrow> string \<Rightarrow> string \<Rightarrow> database \<Rightarrow> (error + nat) \<times> database" where
  "db_hSet key field v db =
     (case hash_at db key of
        Inl e \<Rightarrow> (Inl e, db)
      | Inr h \<Rightarrow>
          (Inr (if map_of h field = None then 1 else 0), put_hash db key (AList.update field v h)))"

definition db_set :: "string \<Rightarrow> string \<Rightarrow> database \<Rightarrow> (error + string) \<times> database" where
  "db_set key v db = (Inr ''OK'', db(key := Some (Entry (RString v) None)))"

section \<open>Connections and the command log\<close>

text \<open>
  The component owns two connections to the same store. Each has its own selected
  logical database. Every command handed to a connection is logged, so that the number
  and order of the commands an operation issues can be stated. A command on a
  connection that is down is rejected and changes nothing.

  A batch (\<open>multi\<close> \<dots> \<open>exec\<close>) is one entry of the log: the call of \<open>exec\<close> with
  the queue built on the batch client. The source makes this call through
  \<open>q.ninvoke(batch, "exec")\<close>, which hands \<open>exec\<close> a node callback as its only argument.
  The \<open>exec\<close> of the client returns a promise and reads its argument as the flag
  \<open>execAsPipeline\<close>. So the queue goes out as a pipeline, command after command, with
  no transaction around it, and nothing ever calls the callback: the promise that
  \<open>execBatch\<close> returns stays pending, whatever the store answers. A queued command that
  fails does not undo the others. Several clients at once are outside this model: it has
  one caller, whose commands reach the store in the order they are issued, so the
  commands of other clients that a pipeline lets in between cannot be shown in it.
\<close>

datatype client = OpsClient | MetricsClient

datatype queued =
    QHIncrBy string "string option" int
  | QHSet string string string

datatype command =
    Del "string list"
  | Exists "string list"
  | Expire string nat
  | HDel string string
  | HGet string string
  | HGetAll string
  | HIncrBy string "string option" int
  | HSet string string string
  | Ping
  | Quit
  | Select nat
  | Set string string
  | Exec "queued list"

record connection =
  up :: bool
  selected :: nat

text \<open>
  The declared type of a hash field is \<open>string\<close>, but the field builders of module
  Utilities return \<open>null\<close> for an input they do not accept, and the callers pass the
  result on unchecked. The client refuses a \<open>null\<close> argument with a type error before
  it sends anything: the command fails and the store is as it was.
\<close>

record world =
  databases :: "nat \<Rightarrow> database"
  opsConn :: connection
  metricsConn :: connection
  issued :: "(client \<times> command) list"

definition conn :: "client \<Rightarrow> world \<Rightarrow> connection" where
  "conn c w = (case c of OpsClient \<Rightarrow> opsConn w | MetricsClient \<Rightarrow> metricsConn w)"

definition set_conn :: "client \<Rightarrow> connection \<Rightarrow> world \<Rightarrow> world" where
  "set_conn c cn w =
     (case c of OpsClient \<Rightarrow> w\<lparr>opsConn := cn\<rparr> | MetricsClient \<Rightarrow> w\<lparr>metricsConn := cn\<rparr>)"

definition current_db :: "client \<Rightarrow> world \<Rightarrow> database" where
  "current_db c w = databases w (selected (conn c w))"

type_synonym 'a promise = "world \<Rightarrow> (error + 'a) \<times> world"

definition resolved :: "'a \<Rightarrow> 'a promise" where
  "resolved x w = (Inr x, w)"

definition rejected :: "error \<Rightarrow> 'a promise" where
  "rejected e w = (Inl e, w)"

definition settled :: "error + 'a \<Rightarrow> 'a promise" where
  "settled r w = (r, w)"

definition andThen :: "'a promise \<Rightarrow> ('a \<Rightarrow> 'b promise) \<Rightarrow> 'b promise" where
  "andThen p f w = (case p w of (Inl e, w') \<Rightarrow> (Inl e, w') | (Inr x, w') \<Rightarrow> f x w')"

definition discard :: "'a promise \<Rightarrow> unit promise" where
  "discard p = andThen p (\<lambda>_. resolved ())"

definition call ::
  "client \<Rightarrow> command \<Rightarrow> (database \<Rightarrow> (error + 'a) \<times> database) \<Rightarrow> 'a promise" where
  "call c cmd f w =
     (let w1 = w\<lparr>issued := issued w @ [(c, cmd)]\<rparr> in
      if \<not> up (conn c w1) then (Inl ConnectionError, w1)
      else (case f (current_db c w1) of
              (r, db') \<Rightarrow> (r, w1\<lparr>databases := (databases w1)(selected (conn c w1) := db')\<rparr>)))"

definition db_hIncrBy_arg ::
  "string \<Rightarrow> string option \<Rightarrow> int \<Rightarrow> database \<Rightarrow> (error + int) \<times> database" where
  "db_hIncrBy_arg key field incr db =
     (case field of
        None \<Rightarrow> (Inl InvalidArgument, db)
      | Some f \<Rightarrow> db_hIncrBy key f incr db)"

definition failure :: "(error + 'a) \<times> database \<Rightarrow> error option \<times> database" where
  "failure r = (case r of (Inl e, db) \<Rightarrow> (Some e, db) | (Inr _, db) \<Rightarrow> (None, db))"

fun run_queued :: "queued \<Rightarrow> database \<Rightarrow> error option \<times> database" where
  "run_queued (QHIncrBy key field incr) db = failure (db_hIncrBy_arg key field incr db)"
| "run_queued (QHSet key field v) db = failure (db_hSet key field v db)"

fun queued_key :: "queued \<Rightarrow> string" where
  "queued_key (QHIncrBy key field incr) = key"
| "queued_key (QHSet key field v) = key"

fun null_field :: "queued \<Rightarrow> bool" where
  "null_field (QHIncrBy key field incr) = (field = None)"
| "null_field (QHSet key field v) = False"

fun run_batch :: "queued list \<Rightarrow> database \<Rightarrow> (error + unit) \<times> database" where
  "run_batch [] db = (Inr (), db)"
| "run_batch (q # qs) db =
     (case run_queued q db of
        (None, db1) \<Rightarrow> run_batch qs db1
      | (Some e, db1) \<Rightarrow> (Inl e, snd (run_batch qs db1)))"

subsection \<open>The promisified client (class PromisifiedRedisClient)\<close>

text \<open>
  The class declares \<open>del\<close> with any number of keys, but the method of the client that
  it binds reads one argument only (a key, or an array of keys) and ignores the
  arguments after it. The list is the arguments of the call, as the log keeps them; the
  store deletes the first.
\<close>

definition del :: "client \<Rightarrow> string list \<Rightarrow> nat promise" where
  "del c keys =
     (case keys of
        [] \<Rightarrow> rejected InvalidArgument
      | key # ignored \<Rightarrow> call c (Del keys) (db_del [key]))"

text \<open>
  The queue runs as a pipeline and the promise stays pending; only the type error of the
  client for a \<open>null\<close> argument in the queue is raised.
\<close>

definition execBatch :: "client \<Rightarrow> queued list \<Rightarrow> unit promise" where
  "execBatch c batch w =
     (case call c (Exec batch) (run_batch batch) w of
        (r, w') \<Rightarrow>
          (Inl (if list_ex null_field batch then InvalidArgument else NeverSettles), w'))"

definition exists :: "client \<Rightarrow> string list \<Rightarrow> nat promise" where
  "exists c keys = call c (Exists keys) (db_exists keys)"

definition expire :: "client \<Rightarrow> string \<Rightarrow> nat \<Rightarrow> nat promise" where
  "expire c key seconds = call c (Expire key seconds) (db_expire key seconds)"

definition hDel :: "client \<Rightarrow> string \<Rightarrow> string \<Rightarrow> nat promise" where
  "hDel c key field = call c (HDel key field) (db_hDel key field)"

definition hGet :: "client \<Rightarrow> string \<Rightarrow> string \<Rightarrow> string option promise" where
  "hGet c key field = call c (HGet key field) (db_hGet key field)"

definition hGetAll :: "client \<Rightarrow> string \<Rightarrow> hash promise" where
  "hGetAll c key = call c (HGetAll key) (db_hGetAll key)"

definition hIncrBy :: "client \<Rightarrow> string \<Rightarrow> string option \<Rightarrow> int \<Rightarrow> int promise" where
  "hIncrBy c key field incr w =
     call c (HIncrBy key field incr) (db_hIncrBy_arg key field incr) w"

definition hSet :: "client \<Rightarrow> string \<Rightarrow> string \<Rightarrow> string \<Rightarrow> nat promise" where
  "hSet c key field v = call c (HSet key field v) (db_hSet key field v)"

definition ping :: "client \<Rightarrow> string promise" where
  "ping c = call c Ping (\<lambda>db. (Inr ''PONG'', db))"

definition quit :: "client \<Rightarrow> string promise" where
  "quit c =
     andThen (call c Quit (\<lambda>db. (Inr ''OK'', db)))
       (\<lambda>r w. (Inr r, set_conn c ((conn c w)\<lparr>up := False\<rparr>) w))"

definition select :: "client \<Rightarrow> nat \<Rightarrow> string promise" where
  "select c databaseNumber =
     andThen (call c (Select databaseNumber) (\<lambda>db. (Inr ''OK'', db)))
       (\<lambda>r w. (Inr r, set_conn c ((conn c w)\<lparr>selected := databaseNumber\<rparr>) w))"

definition set_key :: "client \<Rightarrow> string \<Rightarrow> string \<Rightarrow> string promise" where
  "set_key c key v = call c (Set key v) (db_set key v)"

section \<open>The manager (class RedisManager)\<close>

definition DEFAULT_EXPIRY :: nat where
  "DEFAULT_EXPIRY = 3600"

definition METRICS_DB :: nat where
  "METRICS_DB = 1"

record env =
  REDIS_HOST :: "string option"
  REDIS_PORT :: "string option"
  REDIS_KEY :: "string option"

text \<open>
  The fields of the class: the two clients, undefined when the store is not configured,
  and the promise of the one-time metrics setup, kept with its outcome.
\<close>

record manager =
  opsClient :: "client option"
  metricsClient :: "client option"
  setupMetricsClientPromise :: "(error + string) option"

definition constructor :: "env \<Rightarrow> world \<Rightarrow> manager \<times> world" where
  "constructor e w =
     (if truthy_opt (REDIS_HOST e) \<and> truthy_opt (REDIS_PORT e) then
        (case andThen (select MetricsClient METRICS_DB)
                (\<lambda>_. set_key MetricsClient ''health'' ''health'') w of
           (r, w') \<Rightarrow>
             (\<lparr>opsClient = Some OpsClient, metricsClient = Some MetricsClient,
               setupMetricsClientPromise = Some r\<rparr>, w'))
      else
        (\<lparr>opsClient = None, metricsClient = None, setupMetricsClientPromise = None\<rparr>, w))"

definition isEnabled :: "manager \<Rightarrow> bool" where
  "isEnabled m \<longleftrightarrow> opsClient m \<noteq> None \<and> metricsClient m \<noteq> None"

text \<open>
  \<open>this._setupMetricsClientPromise.then(...)\<close>: the continuation runs once the setup
  has succeeded; a failed setup rejects every metrics operation.
\<close>

definition awaitSetup :: "manager \<Rightarrow> string promise" where
  "awaitSetup m =
     (case setupMetricsClientPromise m of None \<Rightarrow> rejected TypeError | Some r \<Rightarrow> settled r)"

text \<open>\<open>q.all([p1, p2])\<close>: both are started; the result is rejected when one of them is.\<close>

definition all2 :: "'a promise \<Rightarrow> 'b promise \<Rightarrow> ('a \<times> 'b) promise" where
  "all2 p1 p2 w =
     (case p1 w of
        (r1, w1) \<Rightarrow>
          (case p2 w1 of
             (r2, w2) \<Rightarrow>
               ((case r1 of
                   Inl e \<Rightarrow> Inl e
                 | Inr x \<Rightarrow> (case r2 of Inl e \<Rightarrow> Inl e | Inr y \<Rightarrow> Inr (x, y))), w2)))"

definition checkHealth :: "manager \<Rightarrow> unit promise" where
  "checkHealth m =
     (if \<not> isEnabled m then rejected NotEnabled
      else discard (all2 (ping OpsClient) (ping MetricsClient)))"

text \<open>
  \<open>JSON.stringify\<close> and \<open>JSON.parse\<close> belong to the language, not to the repository:
  the cache operations take them as parameters, over any type \<open>'r\<close> of responses.
  A parse that throws is \<open>None\<close>.
\<close>

definition getCachedResponse ::
  "(string \<Rightarrow> 'r option) \<Rightarrow> manager \<Rightarrow> string \<Rightarrow> string \<Rightarrow> 'r option promise" where
  "getCachedResponse JSON_parse m expiryKey url =
     (if \<not> isEnabled m then resolved None
      else
        andThen (hGet OpsClient expiryKey url)
          (\<lambda>serializedResponse.
             case serializedResponse of
               None \<Rightarrow> resolved None
             | Some text \<Rightarrow>
                 if truthy text then
                   (case JSON_parse text of
                      None \<Rightarrow> rejected SyntaxError
                    | Some response \<Rightarrow> resolved (Some response))
                 else resolved None))"

definition setCachedResponse ::
  "('r \<Rightarrow> string) \<Rightarrow> manager \<Rightarrow> string \<Rightarrow> string \<Rightarrow> 'r \<Rightarrow> unit promise" where
  "setCachedResponse JSON_stringify m expiryKey url response =
     (if \<not> isEnabled m then resolved ()
      else
        (let serializedResponse = JSON_stringify response in
         discard
           (andThen (exists OpsClient [expiryKey])
              (\<lambda>isExisting.
                 let isNewKey = (isExisting = 0) in
                 andThen (hSet OpsClient expiryKey url serializedResponse)
                   (\<lambda>_.
                      if isNewKey then discard (expire OpsClient expiryKey DEFAULT_EXPIRY)
                      else resolved ())))))"

definition incrementLabelStatusCount :: "manager \<Rightarrow> string \<Rightarrow> string \<Rightarrow> string \<Rightarrow> unit promise" where
  "incrementLabelStatusCount m deploymentKey label status =
     (if \<not> isEnabled m then resolved ()
      else
        (let hash = getDeploymentKeyLabelsHash deploymentKey;
             field = getLabelStatusField label status
         in discard (andThen (awaitSetup m) (\<lambda>_. hIncrBy MetricsClient hash field 1))))"

definition clearMetricsForDeploymentKey :: "manager \<Rightarrow> string \<Rightarrow> unit promise" where
  "clearMetricsForDeploymentKey m deploymentKey =
     (if \<not> isEnabled m then resolved ()
      else
        discard
          (andThen (awaitSetup m)
             (\<lambda>_. del MetricsClient
                    [getDeploymentKeyLabelsHash deploymentKey,
                     getDeploymentKeyClientsHash deploymentKey])))"

text \<open>
  \<open>hGetAll\<close> yields an object, an empty one for a key that does not exist, so the test
  \<open>if (metrics)\<close> holds. The loop over the fields replaces a value that reads as a number
  by its \<open>toString()\<close>. The values are strings, so \<open>toString\<close> returns them as they
  are; the numeric test \<open>isNaN(Number(v))\<close> is a parameter.
\<close>

definition toString :: "string \<Rightarrow> string" where
  "toString s = s"

definition getMetricsWithDeploymentKey ::
  "(string \<Rightarrow> bool) \<Rightarrow> manager \<Rightarrow> string \<Rightarrow> hash option promise" where
  "getMetricsWithDeploymentKey isNaN_Number m deploymentKey =
     (if \<not> isEnabled m then resolved None
      else
        andThen
          (andThen (awaitSetup m)
             (\<lambda>_. hGetAll MetricsClient (getDeploymentKeyLabelsHash deploymentKey)))
          (\<lambda>metrics.
             resolved
               (Some (map (\<lambda>(metricField, v).
                             (metricField, if \<not> isNaN_Number v then toString v else v))
                        metrics))))"

definition recordUpdate ::
  "manager \<Rightarrow> string \<Rightarrow> string \<Rightarrow> string option \<Rightarrow> string option \<Rightarrow> unit promise" where
  "recordUpdate m currentDeploymentKey currentLabel previousDeploymentKey previousLabel =
     (if \<not> isEnabled m then resolved ()
      else
        discard
          (andThen (awaitSetup m)
             (\<lambda>_.
                let currentDeploymentKeyLabelsHash = getDeploymentKeyLabelsHash currentDeploymentKey;
                    currentLabelActiveField = getLabelActiveCountField currentLabel;
                    currentLabelDeploymentSucceededField =
                      getLabelStatusField currentLabel DEPLOYMENT_SUCCEEDED;
                    batchClient =
                      [QHIncrBy currentDeploymentKeyLabelsHash currentLabelActiveField 1,
                       QHIncrBy currentDeploymentKeyLabelsHash currentLabelDeploymentSucceededField 1]
                      @ (case (previousDeploymentKey, previousLabel) of
                           (Some pk, Some pl) \<Rightarrow>
                             if truthy pk \<and> truthy pl then
                               [QHIncrBy (getDeploymentKeyLabelsHash pk)
                                  (getLabelActiveCountField pl) (- 1)]
                             else []
                         | _ \<Rightarrow> [])
                in execBatch MetricsClient batchClient)))"

definition removeDeploymentKeyClientActiveLabel :: "manager \<Rightarrow> string \<Rightarrow> string \<Rightarrow> unit promise" where
  "removeDeploymentKeyClientActiveLabel m deploymentKey clientUniqueId =
     (if \<not> isEnabled m then resolved ()
      else
        discard
          (andThen (awaitSetup m)
             (\<lambda>_. hDel MetricsClient (getDeploymentKeyClientsHash deploymentKey) clientUniqueId)))"

definition invalidateCache :: "manager \<Rightarrow> string \<Rightarrow> unit promise" where
  "invalidateCache m expiryKey =
     (if \<not> isEnabled m then resolved ()
      else discard (del OpsClient [expiryKey]))"

definition close :: "manager \<Rightarrow> unit promise" where
  "close m =
     (if opsClient m = None \<and> metricsClient m = None then resolved ()
      else
        discard
          (andThen
             (andThen (resolved ())
                (\<lambda>_. if opsClient m \<noteq> None then discard (quit OpsClient) else resolved ()))
             (\<lambda>_. if metricsClient m \<noteq> None then discard (quit MetricsClient) else resolved ())))"

definition getCurrentActiveLabel :: "manager \<Rightarrow> string \<Rightarrow> string \<Rightarrow> string option promise" where
  "getCurrentActiveLabel m deploymentKey clientUniqueId =
     (if \<not> isEnabled m then resolved None
      else
        andThen (awaitSetup m)
          (\<lambda>_. hGet MetricsClient (getDeploymentKeyClientsHash deploymentKey) clientUniqueId))"

definition updateActiveAppForClient ::
  "manager \<Rightarrow> string \<Rightarrow> string \<Rightarrow> string \<Rightarrow> string option \<Rightarrow> unit promise" where
  "updateActiveAppForClient m deploymentKey clientUniqueId toLabel fromLabel =
     (if \<not> isEnabled m then resolved ()
      else
        discard
          (andThen (awaitSetup m)
             (\<lambda>_.
                let deploymentKeyLabelsHash = getDeploymentKeyLabelsHash deploymentKey;
                    deploymentKeyClientsHash = getDeploymentKeyClientsHash deploymentKey;
                    toLabelActiveField = getLabelActiveCountField toLabel;
                    batchClient =
                      [QHSet deploymentKeyClientsHash clientUniqueId toLabel,
                       QHIncrBy deploymentKeyLabelsHash toLabelActiveField 1]
                      @ (case fromLabel of
                           Some fl \<Rightarrow>
                             if truthy fl then
                               [QHIncrBy deploymentKeyLabelsHash (getLabelActiveCountField fl) (- 1)]
                             else []
                         | None \<Rightarrow> [])
                in execBatch MetricsClient batchClient)))"

section \<open>Example configurations\<close>

text \<open>
  A store with nothing in it and both connections up; a process environment without and
  with the host and port of the store.
\<close>

definition emptyWorld :: world where
  "emptyWorld =
     \<lparr>databases = (\<lambda>_ _. None),
      opsConn = \<lparr>up = True, selected = 0\<rparr>,
      metricsConn = \<lparr>up = True, selected = 0\<rparr>,
      issued = []\<rparr>"

definition noEnv :: env where
  "noEnv = \<lparr>REDIS_HOST = None, REDIS_PORT = None, REDIS_KEY = None\<rparr>"

definition localEnv :: env where
  "localEnv = \<lparr>REDIS_HOST = Some ''localhost'', REDIS_PORT = Some ''6379'', REDIS_KEY = None\<rparr>"

text \<open>
  A response as the cache stores it (interface CacheableResponse), and a sample codec in
  place of \<open>JSON.stringify\<close> and \<open>JSON.parse\<close> for the examples: it writes, and reads
  back, the JSON text of a response whose body is a string without quotes or escapes.
\<close>

record 'body cacheableResponse =
  statusCode :: int
  body :: 'body

definition strip_prefix :: "string \<Rightarrow> string \<Rightarrow> string option" where
  "strip_prefix p s = (if take (length p) s = p then Some (drop (length p) s) else None)"

definition sampleStringify :: "string cacheableResponse \<Rightarrow> string" where
  \<open>sampleStringify response =
     ''{"statusCode":'' @ ll2string (statusCode response) @ '',"body":"'' @ body response @ ''"}''\<close>

definition sampleParse :: "string \<Rightarrow> string cacheableResponse option" where
  \<open>sampleParse text =
     (case strip_prefix ''{"statusCode":'' text of
        None \<Rightarrow> None
      | Some afterKey \<Rightarrow>
          (case string2ll (takeWhile (\<lambda>c. c \<noteq> CHR '','') afterKey) of
             None \<Rightarrow> None
           | Some code \<Rightarrow>
               (case strip_prefix '',"body":"'' (dropWhile (\<lambda>c. c \<noteq> CHR '','') afterKey) of
                  None \<Rightarrow> None
                | Some afterBody \<Rightarrow>
                    if dropWhile (\<lambda>c. c \<noteq> CHR 0x22) afterBody = ''"}''
                    then Some \<lparr>statusCode = code,
                               body = takeWhile (\<lambda>c. c \<noteq> CHR 0x22) afterBody\<rparr>
                    else None)))\<close>

definition sampleResponse :: "string cacheableResponse" where
  "sampleResponse = \<lparr>statusCode = 200, body = ''update available''\<rparr>"

text \<open>The manager built from each environment over the empty store, and the store after it.\<close>

definition noManager :: manager where
  "noManager = fst (constructor noEnv emptyWorld)"

definition localManager :: manager where
  "localManager = fst (constructor localEnv emptyWorld)"

definition localWorld :: world where
  "localWorld = snd (constructor localEnv emptyWorld)"

section \<open>Decimal text and integers agree\<close>








section \<open>What a command leaves alone\<close>

lemmas promise_defs = resolved_def rejected_def settled_def andThen_def discard_def all2_def

lemma put_hash_other: "k \<noteq> key \<Longrightarrow> put_hash db key h k = db k"
  by (simp add: put_hash_def)

lemma db_hIncrBy_other: "k \<noteq> key \<Longrightarrow> snd (db_hIncrBy key f n db) k = db k"
  by (simp add: db_hIncrBy_def put_hash_other split: sum.splits option.splits)

lemma db_hIncrBy_arg_other: "k \<noteq> key \<Longrightarrow> snd (db_hIncrBy_arg key f n db) k = db k"
  by (simp add: db_hIncrBy_arg_def db_hIncrBy_other split: option.splits)

lemma db_hSet_other: "k \<noteq> key \<Longrightarrow> snd (db_hSet key f v db) k = db k"
  by (simp add: db_hSet_def put_hash_other split: sum.splits)

lemma db_hDel_other: "k \<noteq> key \<Longrightarrow> snd (db_hDel key f db) k = db k"
  by (simp add: db_hDel_def put_hash_other split: sum.splits option.splits)

lemma failure_snd: "snd (failure r) = snd r"
  by (cases r) (simp add: failure_def split: sum.splits)

lemma run_queued_other: "k \<noteq> queued_key q \<Longrightarrow> snd (run_queued q db) k = db k"
  by (cases q) (simp_all add: failure_snd db_hIncrBy_arg_other db_hSet_other)

lemma run_batch_other:
  "k \<notin> queued_key ` set qs \<Longrightarrow> snd (run_batch qs db) k = db k"
proof (induction qs arbitrary: db)
  case Nil
  then show ?case by simp
next
  case (Cons q qs)
  then have "snd (run_batch qs (snd (run_queued q db))) k = snd (run_queued q db) k"
    by simp
  moreover have "snd (run_queued q db) k = db k"
    using Cons.prems by (simp add: run_queued_other)
  ultimately show ?case
    by (cases "run_queued q db") (simp split: option.splits)
qed

lemma call_databases:
  "databases (snd (call c cmd f w)) d k =
     (if up (conn c w) \<and> d = selected (conn c w) then snd (f (databases w d)) k
      else databases w d k)"
  by (cases c) (simp_all add: call_def conn_def current_db_def Let_def split: prod.splits)

lemma call_issued: "issued (snd (call c cmd f w)) = issued w @ [(c, cmd)]"
  by (cases c) (simp_all add: call_def conn_def current_db_def Let_def split: prod.splits)

lemma andThen_snd:
  "snd (andThen p f w) = (case fst (p w) of Inl e \<Rightarrow> snd (p w) | Inr x \<Rightarrow> snd (f x (snd (p w))))"
  by (cases "p w") (simp add: andThen_def split: sum.splits)

lemma discard_snd: "snd (discard p w) = snd (p w)"
  by (cases "p w") (simp add: discard_def andThen_def resolved_def split: sum.splits)

lemma awaitSetup_snd: "snd (awaitSetup m w) = w"
  by (simp add: awaitSetup_def rejected_def settled_def split: option.splits)

lemma execBatch_snd: "snd (execBatch c b w) = snd (call c (Exec b) (run_batch b) w)"
  by (simp add: execBatch_def split: prod.splits)

lemma incrementLabelStatusCount_keeps:
  "k \<noteq> getDeploymentKeyLabelsHash deploymentKey \<Longrightarrow>
   databases (snd (incrementLabelStatusCount m deploymentKey label status w)) d k = databases w d k"
  by (simp add: incrementLabelStatusCount_def resolved_def discard_snd andThen_snd awaitSetup_snd
      hIncrBy_def call_databases db_hIncrBy_arg_other Let_def split: sum.splits)

lemma recordUpdate_keeps:
  "k \<noteq> getDeploymentKeyLabelsHash currentDeploymentKey \<Longrightarrow>
   (\<forall>pk. previousDeploymentKey = Some pk \<longrightarrow> k \<noteq> getDeploymentKeyLabelsHash pk) \<Longrightarrow>
   databases (snd (recordUpdate m currentDeploymentKey currentLabel previousDeploymentKey previousLabel w)) d k
     = databases w d k"
  by (simp add: recordUpdate_def resolved_def discard_snd andThen_snd awaitSetup_snd
      execBatch_snd call_databases run_batch_other Let_def
      del: run_batch.simps split: sum.splits option.splits)

lemma removeDeploymentKeyClientActiveLabel_keeps:
  "k \<noteq> getDeploymentKeyClientsHash deploymentKey \<Longrightarrow>
   databases (snd (removeDeploymentKeyClientActiveLabel m deploymentKey clientUniqueId w)) d k
     = databases w d k"
  by (simp add: removeDeploymentKeyClientActiveLabel_def resolved_def discard_snd andThen_snd
      awaitSetup_snd hDel_def call_databases db_hDel_other split: sum.splits)

lemma ping_result:
  "ping c w = (if up (conn c w) then Inr ''PONG'' else Inl ConnectionError,
               w\<lparr>issued := issued w @ [(c, Ping)]\<rparr>)"
  by (cases c) (simp_all add: ping_def call_def conn_def current_db_def Let_def)

section \<open>Evaluating the examples\<close>

lemmas eval_defs =
  constructor_def localEnv_def noEnv_def emptyWorld_def truthy_opt_def truthy_def
  noManager_def localManager_def localWorld_def
  promise_defs select_def set_key_def call_def conn_def set_conn_def current_db_def
  isEnabled_def db_set_def Let_def METRICS_DB_def DEFAULT_EXPIRY_def
  awaitSetup_def execBatch_def hIncrBy_def hGetAll_def hGet_def hSet_def hDel_def del_def
  exists_def expire_def
  db_hIncrBy_arg_def db_hIncrBy_def db_hGetAll_def db_hGet_def db_hSet_def
  db_hDel_def db_exists_def db_expire_def db_del_def failure_def
  hash_at_def put_hash_def count_of_def string2ll_def ll2string_def digits_of_nat.simps
  digit_char_def digit_val_def checked_ll_def in_ll_range_def LLONG_MAX_def LLONG_MIN_def
  getDeploymentKeyLabelsHash_def getDeploymentKeyClientsHash_def getLabelStatusField_def
  getLabelActiveCountField_def isValidDeploymentStatus_def DEPLOYMENT_SUCCEEDED_def
  DEPLOYMENT_FAILED_def DOWNLOADED_def ACTIVE_def toString_def

lemma localManager_eq:
  "localManager = \<lparr>opsClient = Some OpsClient, metricsClient = Some MetricsClient,
      setupMetricsClientPromise = Some (Inr ''OK'')\<rparr>"
  by (simp add: eval_defs)

lemma noManager_eq:
  "noManager = \<lparr>opsClient = None, metricsClient = None, setupMetricsClientPromise = None\<rparr>"
  by (simp add: eval_defs)

lemma issued_localWorld:
  "issued localWorld = [(MetricsClient, Select 1), (MetricsClient, Set ''health'' ''health'')]"
  by (simp add: eval_defs)

section \<open>Counters and batches\<close>

lemma hash_at_put_hash:
  "h \<noteq> [] \<Longrightarrow> hash_at (put_hash db key h) k = (if k = key then Inr h else hash_at db k)"
  by (simp add: hash_at_def put_hash_def)


lemma string2ll_in_range: "string2ll s = Some v \<Longrightarrow> in_ll_range v"
  by (auto simp: string2ll_def checked_ll_def in_ll_range_def LLONG_MIN_def LLONG_MAX_def
      split: list.splits if_splits option.splits)

lemma counter_in_range: "counter db key field = Some v \<Longrightarrow> in_ll_range v"
  by (auto simp: counter_def count_of_def in_ll_range_def LLONG_MIN_def LLONG_MAX_def
      dest: string2ll_in_range split: sum.splits option.splits)


lemma execBatch_result:
  "execBatch c b w =
     (Inl (if list_ex null_field b then InvalidArgument else NeverSettles),
      if up (conn c w) then
        w\<lparr>issued := issued w @ [(c, Exec b)],
          databases := (databases w)
            (selected (conn c w) := snd (run_batch b (current_db c w)))\<rparr>
      else w\<lparr>issued := issued w @ [(c, Exec b)]\<rparr>)"
  by (cases c) (simp_all add: execBatch_def call_def conn_def current_db_def Let_def split: prod.splits)

lemma discard_result: "discard p w = (map_sum id (\<lambda>_. ()) (fst (p w)), snd (p w))"
  by (cases "p w") (simp add: discard_def andThen_def resolved_def split: sum.splits)

lemma awaitSetup_resolved:
  "setupMetricsClientPromise m = Some (Inr r) \<Longrightarrow> andThen (awaitSetup m) f = f r"
  by (rule ext) (simp add: awaitSetup_def settled_def andThen_def)

section \<open>Steps of recordUpdate\<close>

lemma recordUpdate_enabled:
  assumes "isEnabled m" and "setupMetricsClientPromise m = Some (Inr r)"
  shows "recordUpdate m cur l pk pl w =
     discard (execBatch MetricsClient
       ([QHIncrBy (getDeploymentKeyLabelsHash cur) (getLabelActiveCountField l) 1,
         QHIncrBy (getDeploymentKeyLabelsHash cur) (getLabelStatusField l DEPLOYMENT_SUCCEEDED) 1]
        @ (case (pk, pl) of
             (Some a, Some b) \<Rightarrow>
               if truthy a \<and> truthy b then
                 [QHIncrBy (getDeploymentKeyLabelsHash a) (getLabelActiveCountField b) (- 1)]
               else []
           | _ \<Rightarrow> []))) w"
  using assms
  by (simp add: recordUpdate_def discard_def awaitSetup_resolved Let_def)


lemma succeeded_field:
  "getLabelStatusField l DEPLOYMENT_SUCCEEDED = Some (l @ '':DeploymentSucceeded'')"
  by (simp add: getLabelStatusField_def isValidDeploymentStatus_def DEPLOYMENT_SUCCEEDED_def)







lemma recordUpdate_not_supplied:
  assumes en: "isEnabled m" and stp: "setupMetricsClientPromise m = Some (Inr r)"
    and np: "\<not> (truthy_opt pk \<and> truthy_opt pl)"
  shows "recordUpdate m cur l pk pl w =
     discard (execBatch MetricsClient
       [QHIncrBy (getDeploymentKeyLabelsHash cur) (getLabelActiveCountField l) 1,
        QHIncrBy (getDeploymentKeyLabelsHash cur) (Some (l @ '':DeploymentSucceeded'')) 1]) w"
  using np
  by (auto simp: recordUpdate_enabled [OF en stp] succeeded_field truthy_opt_def
      split: option.splits)

section \<open>Steps of the other metrics operations\<close>

lemma hIncrBy_result:
  "hIncrBy c key field n w =
     (if up (conn c w) then
        (fst (db_hIncrBy_arg key field n (current_db c w)),
         w\<lparr>issued := issued w @ [(c, HIncrBy key field n)],
           databases := (databases w)
             (selected (conn c w) := snd (db_hIncrBy_arg key field n (current_db c w)))\<rparr>)
      else (Inl ConnectionError, w\<lparr>issued := issued w @ [(c, HIncrBy key field n)]\<rparr>))"
  by (cases c) (simp_all add: hIncrBy_def call_def conn_def current_db_def Let_def split: prod.splits)

lemma incrementLabelStatusCount_enabled:
  assumes "isEnabled m" and "setupMetricsClientPromise m = Some (Inr r)"
  shows "incrementLabelStatusCount m deploymentKey label status w =
     discard (hIncrBy MetricsClient (getDeploymentKeyLabelsHash deploymentKey)
                (getLabelStatusField label status) 1) w"
  using assms
  by (simp add: incrementLabelStatusCount_def discard_def awaitSetup_resolved Let_def)

lemma toString_map:
  "map (\<lambda>(metricField, v). (metricField, if \<not> N v then toString v else v)) h = h"
  by (induction h) (auto simp: toString_def)

lemma getMetrics_enabled:
  assumes "isEnabled m" and "setupMetricsClientPromise m = Some (Inr r)"
  shows "getMetricsWithDeploymentKey N m deploymentKey w =
     (if up (metricsConn w) then
        (map_sum id Some
           (hash_at (current_db MetricsClient w) (getDeploymentKeyLabelsHash deploymentKey)),
         w\<lparr>issued := issued w @
             [(MetricsClient, HGetAll (getDeploymentKeyLabelsHash deploymentKey))]\<rparr>)
      else (Inl ConnectionError,
            w\<lparr>issued := issued w @
               [(MetricsClient, HGetAll (getDeploymentKeyLabelsHash deploymentKey))]\<rparr>))"
  using assms
  by (simp add: getMetricsWithDeploymentKey_def awaitSetup_resolved toString_map hGetAll_def
      call_def conn_def current_db_def db_hGetAll_def andThen_def resolved_def Let_def
      split: sum.splits)

lemma db_hIncrBy_text:
  assumes "counter db key field = Some v" and "in_ll_range (v + n)"
  shows "\<exists>h. hash_at (snd (db_hIncrBy key field n db)) key = Inr h
           \<and> map_of h field = Some (ll2string (v + n))"
proof -
  from assms(1) obtain h where h: "hash_at db key = Inr h" "count_of h field = Some v"
    by (auto simp: counter_def split: sum.splits)
  with assms(2) have "db_hIncrBy key field n db =
      (Inr (v + n), put_hash db key (AList.update field (ll2string (v + n)) h))"
    by (simp add: db_hIncrBy_def)
  then show ?thesis
    by (simp add: hash_at_put_hash update_conv')
qed

lemma db_del_snd: "snd (db_del ks db) k = (if k \<in> set ks then None else db k)"
  by (simp add: db_del_def)

lemma db_del_fst: "\<exists>n. fst (db_del ks db) = Inr n"
  by (simp add: db_del_def)

lemma del_result:
  "del c (key # ignored) w =
     (if up (conn c w) then
        (fst (db_del [key] (current_db c w)),
         w\<lparr>issued := issued w @ [(c, Del (key # ignored))],
           databases := (databases w)(selected (conn c w) := snd (db_del [key] (current_db c w)))\<rparr>)
      else (Inl ConnectionError, w\<lparr>issued := issued w @ [(c, Del (key # ignored))]\<rparr>))"
  by (cases c) (simp_all add: del_def call_def conn_def current_db_def Let_def split: prod.splits)

section \<open>Steps of the cache operations\<close>

lemma setCachedResponse_enabled:
  assumes en: "isEnabled m" and upo: "up (opsConn w)"
  shows "setCachedResponse JSON_stringify m expiryKey url response w =
     (case hash_at (current_db OpsClient w) expiryKey of
        Inl e \<Rightarrow>
          (Inl e,
           w\<lparr>issued := issued w @
               [(OpsClient, Exists [expiryKey]),
                (OpsClient, HSet expiryKey url (JSON_stringify response))]\<rparr>)
      | Inr h \<Rightarrow>
          (Inr (),
           w\<lparr>issued := issued w @
               [(OpsClient, Exists [expiryKey]),
                (OpsClient, HSet expiryKey url (JSON_stringify response))]
               @ (if current_db OpsClient w expiryKey = None
                  then [(OpsClient, Expire expiryKey DEFAULT_EXPIRY)] else []),
             databases := (databases w)
               (selected (opsConn w) := (current_db OpsClient w)
                  (expiryKey := Some (Entry (RHash (AList.update url (JSON_stringify response) h))
                     (case current_db OpsClient w expiryKey of
                        None \<Rightarrow> Some DEFAULT_EXPIRY
                      | Some e \<Rightarrow> ttl e))))\<rparr>))"
  using en upo
  by (auto simp: setCachedResponse_def exists_def hSet_def expire_def call_def conn_def
      current_db_def db_exists_def db_hSet_def db_expire_def hash_at_def put_hash_def
      promise_defs Let_def DEFAULT_EXPIRY_def
      split: sum.splits option.splits rvalue.splits)

lemma sample_round_trip: "sampleParse (sampleStringify sampleResponse) = Some sampleResponse"
  by (simp add: sampleParse_def sampleStringify_def sampleResponse_def strip_prefix_def
      ll2string_def digits_of_nat.simps digit_char_def string2ll_def digit_val_def
      checked_ll_def in_ll_range_def LLONG_MAX_def LLONG_MIN_def)

lemma hGet_result:
  "hGet c key field w =
     (if up (conn c w) then
        (map_sum id (\<lambda>h. map_of h field) (hash_at (current_db c w) key),
         w\<lparr>issued := issued w @ [(c, HGet key field)]\<rparr>)
      else (Inl ConnectionError, w\<lparr>issued := issued w @ [(c, HGet key field)]\<rparr>))"
  by (cases c)
    (simp_all add: hGet_def call_def conn_def current_db_def db_hGet_def Let_def
      split: prod.splits sum.splits)

section \<open>Labels hash and clients hash\<close>

lemma labels_hash_not_clients_hash:
  "getDeploymentKeyLabelsHash k1 \<noteq> getDeploymentKeyClientsHash k2"
  by (simp add: getDeploymentKeyLabelsHash_def getDeploymentKeyClientsHash_def)

lemma hash_at_upd_other: "k \<noteq> key \<Longrightarrow> hash_at (db(k := x)) key = hash_at db key"
  by (simp add: hash_at_def)

lemma getMetrics_ignores:
  "k \<noteq> getDeploymentKeyLabelsHash deploymentKey \<Longrightarrow>
   fst (getMetricsWithDeploymentKey N m deploymentKey
          (w\<lparr>databases := (databases w)(d := (databases w d)(k := x))\<rparr>))
     = fst (getMetricsWithDeploymentKey N m deploymentKey w)"
  by (simp add: getMetricsWithDeploymentKey_def awaitSetup_def hGetAll_def call_def conn_def
      current_db_def db_hGetAll_def hash_at_upd_other promise_defs Let_def
      split: option.splits sum.splits)

lemma getCurrentActiveLabel_ignores:
  "k \<noteq> getDeploymentKeyClientsHash deploymentKey \<Longrightarrow>
   fst (getCurrentActiveLabel m deploymentKey c
          (w\<lparr>databases := (databases w)(d := (databases w d)(k := x))\<rparr>))
     = fst (getCurrentActiveLabel m deploymentKey c w)"
  by (simp add: getCurrentActiveLabel_def awaitSetup_def hGet_def call_def conn_def
      current_db_def db_hGet_def hash_at_upd_other promise_defs Let_def
      split: option.splits sum.splits)

text \<open>
  Claim C10. The key of the labels hash of one deployment key is never the key of the
  clients hash of any deployment key, the two being built with different prefixes.
  Hence an operation that writes the labels hash (\<open>incrementLabelStatusCount\<close>,
  \<open>recordUpdate\<close>) leaves every clients hash as it was, the operation that writes the
  clients hash (\<open>removeDeploymentKeyClientActiveLabel\<close>) leaves every labels hash as it
  was, and what the two readers return does not depend on the hash of the other kind.
\<close>

theorem labels_hash_never_clients_hash:
  "getDeploymentKeyLabelsHash k1 \<noteq> getDeploymentKeyClientsHash k2
   \<and> databases (snd (incrementLabelStatusCount m k1 label status w)) d
         (getDeploymentKeyClientsHash k2)
       = databases w d (getDeploymentKeyClientsHash k2)
   \<and> databases (snd (recordUpdate m k1 label previousDeploymentKey previousLabel w)) d
         (getDeploymentKeyClientsHash k2)
       = databases w d (getDeploymentKeyClientsHash k2)
   \<and> databases (snd (removeDeploymentKeyClientActiveLabel m k2 clientUniqueId w)) d
         (getDeploymentKeyLabelsHash k1)
       = databases w d (getDeploymentKeyLabelsHash k1)
   \<and> fst (getMetricsWithDeploymentKey N m k1
         (w\<lparr>databases := (databases w)(d := (databases w d)(getDeploymentKeyClientsHash k2 := x))\<rparr>))
       = fst (getMetricsWithDeploymentKey N m k1 w)
   \<and> fst (getCurrentActiveLabel m k2 clientUniqueId
         (w\<lparr>databases := (databases w)(d := (databases w d)(getDeploymentKeyLabelsHash k1 := x))\<rparr>))
       = fst (getCurrentActiveLabel m k2 clientUniqueId w)"
proof -
  have ne: "getDeploymentKeyClientsHash a \<noteq> getDeploymentKeyLabelsHash b" for a b
    using labels_hash_not_clients_hash [of b a] by simp
  show ?thesis
    by (simp add: labels_hash_not_clients_hash ne incrementLabelStatusCount_keeps
        recordUpdate_keeps removeDeploymentKeyClientActiveLabel_keeps
        getMetrics_ignores getCurrentActiveLabel_ignores)
qed

theorem labels_hash_never_clients_hash_witness:
  "''deploymentKeyLabels:abc123'' \<noteq> ''deploymentKeyClients:abc123''
   \<and> databases (snd (recordUpdate localManager ''abc123'' ''v2'' None None localWorld)) 1
         ''deploymentKeyClients:abc123'' = None"
  using labels_hash_never_clients_hash [of "''abc123''" "''abc123''" localManager "''v2''"
      "''DeploymentSucceeded''" localWorld 1 None None]
  by (simp add: eval_defs)


section \<open>Health check\<close>

text \<open>
  Claim C6. \<open>checkHealth\<close> is rejected with the "not enabled" signal when the manager
  is disabled, and issues no command then. Otherwise it pings the ops connection and
  the metrics connection, in this order; it succeeds exactly when neither ping fails,
  and is rejected when one of them fails.
\<close>

theorem checkHealth_outcome:
  "checkHealth m w =
     (if \<not> isEnabled m then (Inl NotEnabled, w)
      else (if isl (fst (ping OpsClient w)) \<or> isl (fst (ping MetricsClient (snd (ping OpsClient w))))
            then Inl ConnectionError else Inr (),
            w\<lparr>issued := issued w @ [(OpsClient, Ping), (MetricsClient, Ping)]\<rparr>))"
  by (simp add: checkHealth_def promise_defs ping_result conn_def)

theorem checkHealth_outcome_witness:
  "checkHealth localManager emptyWorld =
     (Inr (), emptyWorld\<lparr>issued := [(OpsClient, Ping), (MetricsClient, Ping)]\<rparr>)
   \<and> fst (checkHealth localManager
             (emptyWorld\<lparr>metricsConn := \<lparr>up = False, selected = 0\<rparr>\<rparr>)) = Inl ConnectionError
   \<and> checkHealth noManager emptyWorld = (Inl NotEnabled, emptyWorld)"
  using checkHealth_outcome [of localManager emptyWorld]
    checkHealth_outcome [of localManager
       "emptyWorld\<lparr>metricsConn := \<lparr>up = False, selected = 0\<rparr>\<rparr>"]
    checkHealth_outcome [of noManager emptyWorld]
  by (simp add: localManager_eq noManager_eq ping_result eval_defs)

section \<open>Disabled mode\<close>

text \<open>
  Claim C5, as the claim states it, fails for \<open>checkHealth\<close>: without configuration
  the health check does not resolve, it is rejected.
\<close>

theorem disabled_checkHealth_counterexample:
  "fst (checkHealth (fst (constructor noEnv emptyWorld)) emptyWorld) = Inl NotEnabled"
  by (simp add: checkHealth_def eval_defs)

text \<open>
  Claim C5, amended. When the host or the port of the store is not configured, the
  constructor issues no command and the manager is disabled; every public operation
  other than \<open>checkHealth\<close> then resolves with its disabled result (nothing, or no
  value) and leaves the world as it was, so that no command is issued; \<open>checkHealth\<close>
  issues no command either and is rejected with the "not enabled" signal.
\<close>

theorem disabled_mode_is_silent:
  assumes "\<not> (truthy_opt (REDIS_HOST e) \<and> truthy_opt (REDIS_PORT e))"
    and "m = fst (constructor e w0)"
  shows "snd (constructor e w0) = w0
    \<and> \<not> isEnabled m
    \<and> getCachedResponse JSON_parse m expiryKey url w = (Inr None, w)
    \<and> setCachedResponse JSON_stringify m expiryKey url response w = (Inr (), w)
    \<and> invalidateCache m expiryKey w = (Inr (), w)
    \<and> incrementLabelStatusCount m deploymentKey label status w = (Inr (), w)
    \<and> recordUpdate m deploymentKey label previousDeploymentKey previousLabel w = (Inr (), w)
    \<and> removeDeploymentKeyClientActiveLabel m deploymentKey clientUniqueId w = (Inr (), w)
    \<and> getMetricsWithDeploymentKey isNaN_Number m deploymentKey w = (Inr None, w)
    \<and> clearMetricsForDeploymentKey m deploymentKey w = (Inr (), w)
    \<and> close m w = (Inr (), w)
    \<and> getCurrentActiveLabel m deploymentKey clientUniqueId w = (Inr None, w)
    \<and> updateActiveAppForClient m deploymentKey clientUniqueId label previousLabel w = (Inr (), w)
    \<and> checkHealth m w = (Inl NotEnabled, w)"
proof -
  from assms have m: "m = \<lparr>opsClient = None, metricsClient = None, setupMetricsClientPromise = None\<rparr>"
    and w: "snd (constructor e w0) = w0"
    by (auto simp: constructor_def)
  show ?thesis
    by (simp add: w, simp add: m isEnabled_def getCachedResponse_def setCachedResponse_def
        invalidateCache_def incrementLabelStatusCount_def recordUpdate_def
        removeDeploymentKeyClientActiveLabel_def getMetricsWithDeploymentKey_def
        clearMetricsForDeploymentKey_def close_def getCurrentActiveLabel_def
        updateActiveAppForClient_def checkHealth_def resolved_def rejected_def)
qed

theorem disabled_mode_is_silent_witness:
  "snd (constructor noEnv emptyWorld) = emptyWorld
   \<and> recordUpdate noManager ''abc123'' ''v2'' None None emptyWorld = (Inr (), emptyWorld)
   \<and> getMetricsWithDeploymentKey (\<lambda>_. False) noManager ''abc123'' emptyWorld = (Inr None, emptyWorld)
   \<and> close noManager emptyWorld = (Inr (), emptyWorld)
   \<and> issued (snd (checkHealth noManager emptyWorld)) = []"
proof -
  have h: "\<not> (truthy_opt (REDIS_HOST noEnv) \<and> truthy_opt (REDIS_PORT noEnv))"
    by (simp add: noEnv_def truthy_opt_def)
  have m: "noManager = fst (constructor noEnv emptyWorld)"
    by (simp add: noManager_def)
  from disabled_mode_is_silent [OF h m, where w = emptyWorld and deploymentKey = "''abc123''"
      and label = "''v2''" and previousDeploymentKey = None and previousLabel = None
      and isNaN_Number = "\<lambda>_. False" and JSON_parse = "\<lambda>_. Some ()"
      and JSON_stringify = "\<lambda>_. ''{}''" and response = "()" and expiryKey = "''k''"
      and url = "''u''" and clientUniqueId = "''c''" and status = "''Downloaded''"]
  show ?thesis by (simp add: emptyWorld_def)
qed

section \<open>Recording an update\<close>




text \<open>
  Claim C9. In enabled mode, once the metrics setup has completed, a call of
  \<open>recordUpdate\<close> whose previous deployment key or previous label is missing or empty
  issues one batch with exactly the two increments on the labels hash of the current
  deployment key and no decrement. In every logical database, every key other than that
  labels hash holds what it held before, and both connections are as they were.
\<close>

theorem recordUpdate_without_previous:
  assumes en: "isEnabled m" and stp: "setupMetricsClientPromise m = Some (Inr r)"
    and np: "\<not> (truthy_opt previousDeploymentKey \<and> truthy_opt previousLabel)"
  shows
    "issued (snd (recordUpdate m currentDeploymentKey currentLabel previousDeploymentKey previousLabel w)) =
       issued w @ [(MetricsClient, Exec
         [QHIncrBy (getDeploymentKeyLabelsHash currentDeploymentKey)
            (getLabelActiveCountField currentLabel) 1,
          QHIncrBy (getDeploymentKeyLabelsHash currentDeploymentKey)
            (Some (currentLabel @ '':DeploymentSucceeded'')) 1])]
     \<and> (\<forall>d k. k \<noteq> getDeploymentKeyLabelsHash currentDeploymentKey \<longrightarrow>
            databases (snd (recordUpdate m currentDeploymentKey currentLabel
                              previousDeploymentKey previousLabel w)) d k
              = databases w d k)
     \<and> opsConn (snd (recordUpdate m currentDeploymentKey currentLabel
                        previousDeploymentKey previousLabel w)) = opsConn w
     \<and> metricsConn (snd (recordUpdate m currentDeploymentKey currentLabel
                        previousDeploymentKey previousLabel w)) = metricsConn w"
  by (simp add: recordUpdate_not_supplied [OF en stp np] discard_result execBatch_result
      run_batch_other conn_def current_db_def del: run_batch.simps)

theorem recordUpdate_without_previous_witness:
  "issued (snd (recordUpdate localManager ''abc123'' ''v2'' (Some ''old'') (Some []) localWorld)) =
     [(MetricsClient, Select 1), (MetricsClient, Set ''health'' ''health''),
      (MetricsClient, Exec [QHIncrBy ''deploymentKeyLabels:abc123'' (Some ''v2:Active'') 1,
                            QHIncrBy ''deploymentKeyLabels:abc123'' (Some ''v2:DeploymentSucceeded'') 1])]
   \<and> databases (snd (recordUpdate localManager ''abc123'' ''v2'' (Some ''old'') (Some []) localWorld))
        1 ''deploymentKeyLabels:old'' = None
   \<and> databases (snd (recordUpdate localManager ''abc123'' ''v2'' (Some ''old'') (Some []) localWorld))
        1 ''health'' = Some (Entry (RString ''health'') None)"
proof -
  have en: "isEnabled localManager"
    by (simp add: localManager_eq isEnabled_def)
  have stp: "setupMetricsClientPromise localManager = Some (Inr ''OK'')"
    by (simp add: localManager_eq)
  have np: "\<not> (truthy_opt (Some ''old'') \<and> truthy_opt (Some []))"
    by (simp add: truthy_opt_def truthy_def)
  have db: "databases localWorld 1 ''deploymentKeyLabels:old'' = None"
    "databases localWorld 1 ''health'' = Some (Entry (RString ''health'') None)"
    by (simp_all add: eval_defs)
  from recordUpdate_without_previous [OF en stp np, where currentDeploymentKey = "''abc123''"
      and currentLabel = "''v2''" and w = localWorld] db
  show ?thesis
    by (simp add: issued_localWorld getDeploymentKeyLabelsHash_def getLabelActiveCountField_def
        truthy_def ACTIVE_def)
qed

section \<open>Counting a label status\<close>

text \<open>
  Claim C2, as the claim states it, fails in its last part: for a status that is not
  recognised the operation is not absorbed as a success. The field builder returns
  \<open>null\<close>, the operation hands it to the increment command unchecked, and the client
  refuses it: the operation is rejected with that error.
\<close>

theorem incrementLabelStatusCount_invalid_status_counterexample:
  "fst (incrementLabelStatusCount localManager ''abc123'' ''v1'' ''Bogus'' localWorld)
     = Inl InvalidArgument"
  by (simp add: localManager_eq incrementLabelStatusCount_def eval_defs)

text \<open>
  Claim C2, amended. In enabled mode, once the metrics setup has completed, a call of
  \<open>incrementLabelStatusCount\<close> with a status that is not one of the three recognised
  values creates and changes no counter field, and nothing else in the store; it is not
  absorbed as a success but rejected: with the type error of the client for the \<open>null\<close>
  field when the connection is up, with the error of the connection otherwise.
\<close>

theorem incrementLabelStatusCount_invalid_status:
  assumes en: "isEnabled m" and stp: "setupMetricsClientPromise m = Some (Inr r)"
    and inv: "\<not> isValidDeploymentStatus status"
  shows
    "fst (incrementLabelStatusCount m deploymentKey label status w) =
       Inl (if up (metricsConn w) then InvalidArgument else ConnectionError)
     \<and> databases (snd (incrementLabelStatusCount m deploymentKey label status w)) = databases w
     \<and> opsConn (snd (incrementLabelStatusCount m deploymentKey label status w)) = opsConn w
     \<and> metricsConn (snd (incrementLabelStatusCount m deploymentKey label status w)) = metricsConn w"
proof -
  have fld: "getLabelStatusField label status = None"
    using inv by (simp add: getLabelStatusField_def)
  have op: "incrementLabelStatusCount m deploymentKey label status w =
      discard (hIncrBy MetricsClient (getDeploymentKeyLabelsHash deploymentKey) None 1) w"
    by (simp add: incrementLabelStatusCount_enabled [OF en stp] fld)
  show ?thesis
    by (simp add: op discard_result hIncrBy_result db_hIncrBy_arg_def conn_def current_db_def)
qed

theorem incrementLabelStatusCount_invalid_status_witness:
  "fst (incrementLabelStatusCount localManager ''abc123'' ''v1'' ''Bogus'' localWorld)
     = Inl InvalidArgument
   \<and> databases (snd (incrementLabelStatusCount localManager ''abc123'' ''v1'' ''Bogus'' localWorld))
     = databases localWorld
   \<and> fst (getMetricsWithDeploymentKey (\<lambda>_. False) localManager ''abc123''
            (snd (incrementLabelStatusCount localManager ''abc123'' ''v1'' ''Bogus'' localWorld)))
     = Inr (Some [])"
proof -
  have en: "isEnabled localManager"
    by (simp add: localManager_eq isEnabled_def)
  have stp: "setupMetricsClientPromise localManager = Some (Inr ''OK'')"
    by (simp add: localManager_eq)
  have inv: "\<not> isValidDeploymentStatus ''Bogus''"
    by (simp add: isValidDeploymentStatus_def DEPLOYMENT_SUCCEEDED_def DEPLOYMENT_FAILED_def
        DOWNLOADED_def)
  let ?w' = "snd (incrementLabelStatusCount localManager ''abc123'' ''v1'' ''Bogus'' localWorld)"
  note inst = incrementLabelStatusCount_invalid_status [OF en stp inv,
      where deploymentKey = "''abc123''" and label = "''v1''" and w = localWorld]
  have upm: "up (metricsConn localWorld)"
    by (simp add: eval_defs)
  have same: "databases ?w' = databases localWorld" "metricsConn ?w' = metricsConn localWorld"
    using inst by simp_all
  have empty: "hash_at (current_db MetricsClient localWorld)
      (getDeploymentKeyLabelsHash ''abc123'') = Inr []"
    by (simp add: eval_defs)
  have get: "fst (getMetricsWithDeploymentKey (\<lambda>_. False) localManager ''abc123'' ?w') = Inr (Some [])"
    using upm empty
    by (simp add: getMetrics_enabled [OF en stp] same current_db_def conn_def)
  from inst upm same get show ?thesis
    by simp
qed

section \<open>Reading and clearing the metrics\<close>

text \<open>
  Claim C7. In disabled mode \<open>getMetricsWithDeploymentKey\<close> returns nothing and issues no
  command. In enabled mode, once the metrics setup has completed and with the connection
  up, it issues one read of the whole labels hash of the deployment key and returns all
  its fields with the values as the text the store holds (the loop over the fields
  changes none of them). A count is such a text: after \<open>incrementLabelStatusCount\<close> has
  taken a counter from \<open>n\<close> to \<open>n + 1\<close>, the value returned for its field is the decimal
  text of \<open>n + 1\<close>.
\<close>

theorem getMetricsWithDeploymentKey_returns_text:
  "(\<not> isEnabled m \<longrightarrow>
      getMetricsWithDeploymentKey isNaN_Number m deploymentKey w = (Inr None, w))
   \<and> (isEnabled m \<and> setupMetricsClientPromise m = Some (Inr r) \<and> up (metricsConn w)
        \<and> hash_at (current_db MetricsClient w) (getDeploymentKeyLabelsHash deploymentKey) = Inr h
      \<longrightarrow>
      getMetricsWithDeploymentKey isNaN_Number m deploymentKey w =
        (Inr (Some h),
         w\<lparr>issued := issued w @
             [(MetricsClient, HGetAll (getDeploymentKeyLabelsHash deploymentKey))]\<rparr>))
   \<and> (isEnabled m \<and> setupMetricsClientPromise m = Some (Inr r) \<and> up (metricsConn w)
        \<and> isValidDeploymentStatus status
        \<and> counter (current_db MetricsClient w) (getDeploymentKeyLabelsHash deploymentKey)
             (label @ '':'' @ status) = Some n
        \<and> n < LLONG_MAX
      \<longrightarrow>
      (\<exists>h'. fst (getMetricsWithDeploymentKey isNaN_Number m deploymentKey
                    (snd (incrementLabelStatusCount m deploymentKey label status w)))
               = Inr (Some h')
            \<and> map_of h' (label @ '':'' @ status) = Some (ll2string (n + 1))))"
  (is "?A \<and> ?B \<and> ?C")
proof -
  let ?H = "getDeploymentKeyLabelsHash deploymentKey"
  let ?db = "current_db MetricsClient w"
  have a: ?A
    by (simp add: getMetricsWithDeploymentKey_def resolved_def)
  have b: ?B
    by (intro impI, elim conjE) (simp add: getMetrics_enabled)
  have c: ?C
  proof (intro impI, elim conjE)
    assume en: "isEnabled m" and stp: "setupMetricsClientPromise m = Some (Inr r)"
      and u: "up (metricsConn w)" and valid: "isValidDeploymentStatus status"
      and cn: "counter ?db ?H (label @ '':'' @ status) = Some n" and lt: "n < LLONG_MAX"
    let ?w' = "snd (incrementLabelStatusCount m deploymentKey label status w)"
    have rg: "in_ll_range (n + 1)"
      using counter_in_range [OF cn] lt by (simp add: in_ll_range_def)
    have fld: "getLabelStatusField label status = Some (label @ '':'' @ status)"
      using valid by (simp add: getLabelStatusField_def)
    have w': "up (metricsConn ?w')"
      "current_db MetricsClient ?w' = snd (db_hIncrBy ?H (label @ '':'' @ status) 1 ?db)"
      using u
      by (simp_all add: incrementLabelStatusCount_enabled [OF en stp] fld discard_result
          hIncrBy_result db_hIncrBy_arg_def conn_def current_db_def)
    from db_hIncrBy_text [OF cn rg] obtain h' where
      h': "hash_at (current_db MetricsClient ?w') ?H = Inr h'"
        "map_of h' (label @ '':'' @ status) = Some (ll2string (n + 1))"
      by (auto simp: w'(2))
    have "fst (getMetricsWithDeploymentKey isNaN_Number m deploymentKey ?w') = Inr (Some h')"
      using w'(1) h'(1) by (simp add: getMetrics_enabled [OF en stp])
    with h'(2) show "\<exists>h'. fst (getMetricsWithDeploymentKey isNaN_Number m deploymentKey ?w')
               = Inr (Some h')
            \<and> map_of h' (label @ '':'' @ status) = Some (ll2string (n + 1))"
      by blast
  qed
  show ?thesis
    by (intro conjI a b c)
qed

theorem getMetricsWithDeploymentKey_returns_text_witness:
  "getMetricsWithDeploymentKey (\<lambda>_. False) noManager ''abc123'' emptyWorld = (Inr None, emptyWorld)
   \<and> fst (getMetricsWithDeploymentKey (\<lambda>_. False) localManager ''abc123'' localWorld) = Inr (Some [])
   \<and> (\<exists>h'. fst (getMetricsWithDeploymentKey (\<lambda>_. False) localManager ''abc123''
                   (snd (incrementLabelStatusCount localManager ''abc123'' ''v1'' ''Downloaded''
                           localWorld))) = Inr (Some h')
          \<and> map_of h' ''v1:Downloaded'' = Some ''1'')"
proof -
  have en: "isEnabled localManager" "\<not> isEnabled noManager"
    by (simp_all add: localManager_eq noManager_eq isEnabled_def)
  have stp: "setupMetricsClientPromise localManager = Some (Inr ''OK'')"
    by (simp add: localManager_eq)
  have w: "up (metricsConn localWorld)"
    "hash_at (current_db MetricsClient localWorld) (getDeploymentKeyLabelsHash ''abc123'') = Inr []"
    "counter (current_db MetricsClient localWorld) (getDeploymentKeyLabelsHash ''abc123'')
       (''v1'' @ '':'' @ ''Downloaded'') = Some 0"
    "isValidDeploymentStatus ''Downloaded''"
    by (simp_all add: counter_def eval_defs)
  have one: "ll2string (0 + 1) = ''1''"
    by (simp add: ll2string_def digits_of_nat.simps digit_char_def)
  from getMetricsWithDeploymentKey_returns_text [of noManager "\<lambda>_. False" "''abc123''" emptyWorld
      "''OK''" "[]" "''Downloaded''" "''v1''" 0]
    getMetricsWithDeploymentKey_returns_text [of localManager "\<lambda>_. False" "''abc123''" localWorld
      "''OK''" "[]" "''Downloaded''" "''v1''" 0]
    en stp w one
  show ?thesis
    by (simp add: LLONG_MAX_def)
qed

text \<open>
  Claim C8 says that \<open>clearMetricsForDeploymentKey\<close> deletes the labels hash and the
  clients hash of the deployment key. The code does not: what it does, in enabled mode
  once the metrics setup has completed and with the connection up, is this. It calls
  \<open>del\<close> once with the two keys as two arguments and succeeds; the client reads the
  first argument only, so the labels hash is deleted and \<open>getMetricsWithDeploymentKey\<close>
  returns the empty mapping afterwards, but the clients hash is what it was, and
  \<open>getCurrentActiveLabel\<close> still answers what it answered before.
\<close>

theorem clearMetricsForDeploymentKey_keeps_clients_hash:
  assumes en: "isEnabled m" and stp: "setupMetricsClientPromise m = Some (Inr r)"
    and upm: "up (metricsConn w)"
  shows
    "fst (clearMetricsForDeploymentKey m deploymentKey w) = Inr ()
     \<and> issued (snd (clearMetricsForDeploymentKey m deploymentKey w)) =
         issued w @ [(MetricsClient, Del [getDeploymentKeyLabelsHash deploymentKey,
                                          getDeploymentKeyClientsHash deploymentKey])]
     \<and> current_db MetricsClient (snd (clearMetricsForDeploymentKey m deploymentKey w))
          (getDeploymentKeyLabelsHash deploymentKey) = None
     \<and> current_db MetricsClient (snd (clearMetricsForDeploymentKey m deploymentKey w))
          (getDeploymentKeyClientsHash deploymentKey)
        = current_db MetricsClient w (getDeploymentKeyClientsHash deploymentKey)
     \<and> fst (getMetricsWithDeploymentKey isNaN_Number m deploymentKey
              (snd (clearMetricsForDeploymentKey m deploymentKey w))) = Inr (Some [])
     \<and> fst (getCurrentActiveLabel m deploymentKey clientUniqueId
              (snd (clearMetricsForDeploymentKey m deploymentKey w)))
        = fst (getCurrentActiveLabel m deploymentKey clientUniqueId w)"
proof -
  let ?L = "getDeploymentKeyLabelsHash deploymentKey"
  let ?C = "getDeploymentKeyClientsHash deploymentKey"
  let ?w' = "snd (clearMetricsForDeploymentKey m deploymentKey w)"
  have op: "clearMetricsForDeploymentKey m deploymentKey w = discard (del MetricsClient [?L, ?C]) w"
    using en by (simp add: clearMetricsForDeploymentKey_def discard_def awaitSetup_resolved [OF stp])
  obtain n where n: "fst (db_del [?L] (current_db MetricsClient w)) = Inr n"
    using db_del_fst by blast
  have res: "fst (clearMetricsForDeploymentKey m deploymentKey w) = Inr ()"
    using upm n by (simp add: op discard_result del_result conn_def)
  have log: "issued ?w' = issued w @ [(MetricsClient, Del [?L, ?C])]"
    by (simp add: op discard_result del_result)
  have cdb: "current_db MetricsClient ?w' = snd (db_del [?L] (current_db MetricsClient w))"
    using upm
    by (simp add: op discard_result del_result conn_def current_db_def)
  have ne: "?C \<noteq> ?L"
    using labels_hash_not_clients_hash [of deploymentKey deploymentKey] by simp
  have gone: "current_db MetricsClient ?w' ?L = None"
    by (simp add: cdb db_del_snd)
  have kept: "current_db MetricsClient ?w' ?C = current_db MetricsClient w ?C"
    using ne by (simp add: cdb db_del_snd)
  have up': "up (metricsConn ?w')"
    using upm by (simp add: op discard_result del_result conn_def)
  have "hash_at (current_db MetricsClient ?w') ?L = Inr []"
    by (simp add: hash_at_def gone)
  then have get: "fst (getMetricsWithDeploymentKey isNaN_Number m deploymentKey ?w') = Inr (Some [])"
    using up' by (simp add: getMetrics_enabled [OF en stp])
  have "hash_at (current_db MetricsClient ?w') ?C = hash_at (current_db MetricsClient w) ?C"
    by (simp add: hash_at_def kept)
  then have label: "fst (getCurrentActiveLabel m deploymentKey clientUniqueId ?w')
      = fst (getCurrentActiveLabel m deploymentKey clientUniqueId w)"
    using en upm up'
    by (simp add: getCurrentActiveLabel_def awaitSetup_resolved [OF stp] hGet_result conn_def)
  show ?thesis
    by (intro conjI res log gone kept get label)
qed

theorem clearMetricsForDeploymentKey_keeps_clients_hash_witness:
  "fst (getCurrentActiveLabel localManager ''abc123'' ''client1''
     (snd (clearMetricsForDeploymentKey localManager ''abc123''
        (snd (updateActiveAppForClient localManager ''abc123'' ''client1'' ''v2'' None localWorld)))))
     = Inr (Some ''v2'')
   \<and> current_db MetricsClient
        (snd (clearMetricsForDeploymentKey localManager ''abc123''
           (snd (updateActiveAppForClient localManager ''abc123'' ''client1'' ''v2'' None localWorld))))
        ''deploymentKeyClients:abc123'' = Some (Entry (RHash [(''client1'', ''v2'')]) None)
   \<and> fst (getMetricsWithDeploymentKey (\<lambda>_. False) localManager ''abc123''
        (snd (clearMetricsForDeploymentKey localManager ''abc123''
           (snd (updateActiveAppForClient localManager ''abc123'' ''client1'' ''v2'' None localWorld)))))
     = Inr (Some [])"
proof -
  let ?w = "snd (updateActiveAppForClient localManager ''abc123'' ''client1'' ''v2'' None localWorld)"
  have en: "isEnabled localManager"
    by (simp add: localManager_eq isEnabled_def)
  have stp: "setupMetricsClientPromise localManager = Some (Inr ''OK'')"
    by (simp add: localManager_eq)
  have upm: "up (metricsConn ?w)"
    by (simp add: localManager_eq updateActiveAppForClient_def eval_defs)
  have before: "fst (getCurrentActiveLabel localManager ''abc123'' ''client1'' ?w) = Inr (Some ''v2'')"
    "current_db MetricsClient ?w ''deploymentKeyClients:abc123''
       = Some (Entry (RHash [(''client1'', ''v2'')]) None)"
    by (simp_all add: localManager_eq updateActiveAppForClient_def getCurrentActiveLabel_def
        eval_defs)
  from clearMetricsForDeploymentKey_keeps_clients_hash [OF en stp upm,
      where deploymentKey = "''abc123''" and isNaN_Number = "\<lambda>_. False"
        and clientUniqueId = "''client1''"] before
  show ?thesis
    by (simp add: getDeploymentKeyClientsHash_def)
qed

section \<open>The response cache\<close>

text \<open>
  Claim C3. In enabled mode, with the ops connection up, \<open>setCachedResponse\<close> first asks
  whether the collection of the expiry key exists, then writes the field, and applies the
  fixed time to live exactly when the collection did not exist before this write: a new
  collection gets the time to live, an existing one keeps the one it has. Hence two
  writes in a row under the same new expiry key issue the expiry command once, after the
  first write, and not after the second.
\<close>

theorem setCachedResponse_expires_new_key_only:
  assumes en: "isEnabled m" and upo: "up (opsConn w)"
  shows
    "issued (snd (setCachedResponse JSON_stringify m expiryKey url response w)) =
       issued w @
         [(OpsClient, Exists [expiryKey]),
          (OpsClient, HSet expiryKey url (JSON_stringify response))]
         @ (if current_db OpsClient w expiryKey = None
            then [(OpsClient, Expire expiryKey DEFAULT_EXPIRY)] else [])
     \<and> (current_db OpsClient w expiryKey = None \<longrightarrow>
          current_db OpsClient (snd (setCachedResponse JSON_stringify m expiryKey url response w))
            expiryKey
          = Some (Entry (RHash [(url, JSON_stringify response)]) (Some DEFAULT_EXPIRY)))
     \<and> (\<forall>e. current_db OpsClient w expiryKey = Some e \<longrightarrow>
          map_option ttl
            (current_db OpsClient (snd (setCachedResponse JSON_stringify m expiryKey url response w))
               expiryKey)
          = Some (ttl e))
     \<and> (current_db OpsClient w expiryKey = None \<longrightarrow>
          issued (snd (setCachedResponse JSON_stringify m expiryKey url2 response2
                   (snd (setCachedResponse JSON_stringify m expiryKey url response w)))) =
            issued w @
              [(OpsClient, Exists [expiryKey]),
               (OpsClient, HSet expiryKey url (JSON_stringify response)),
               (OpsClient, Expire expiryKey DEFAULT_EXPIRY),
               (OpsClient, Exists [expiryKey]),
               (OpsClient, HSet expiryKey url2 (JSON_stringify response2))])"
  (is "?A \<and> ?B \<and> ?C \<and> ?D")
proof -
  let ?w' = "snd (setCachedResponse JSON_stringify m expiryKey url response w)"
  note first = setCachedResponse_enabled [OF en upo, of JSON_stringify expiryKey url response]
  have a: ?A
    by (simp add: first hash_at_def split: sum.splits option.splits rvalue.splits)
  have b: ?B
    by (simp add: first hash_at_def current_db_def conn_def)
  have c: ?C
    by (auto simp: first hash_at_def current_db_def conn_def split: rvalue.splits)
  have d: ?D
  proof
    assume new: "current_db OpsClient w expiryKey = None"
    have w': "up (opsConn ?w')"
      "current_db OpsClient ?w' expiryKey
         = Some (Entry (RHash [(url, JSON_stringify response)]) (Some DEFAULT_EXPIRY))"
      "issued ?w' = issued w @
         [(OpsClient, Exists [expiryKey]),
          (OpsClient, HSet expiryKey url (JSON_stringify response)),
          (OpsClient, Expire expiryKey DEFAULT_EXPIRY)]"
      using new upo by (simp_all add: first hash_at_def current_db_def conn_def)
    show "issued (snd (setCachedResponse JSON_stringify m expiryKey url2 response2 ?w')) =
            issued w @
              [(OpsClient, Exists [expiryKey]),
               (OpsClient, HSet expiryKey url (JSON_stringify response)),
               (OpsClient, Expire expiryKey DEFAULT_EXPIRY),
               (OpsClient, Exists [expiryKey]),
               (OpsClient, HSet expiryKey url2 (JSON_stringify response2))]"
      by (simp add: setCachedResponse_enabled [OF en w'(1)] w'(2,3) hash_at_def
          del: AList.update.simps)
  qed
  show ?thesis
    by (intro conjI a b c d)
qed

theorem setCachedResponse_expires_new_key_only_witness:
  "issued (snd (setCachedResponse sampleStringify localManager ''deploy1'' ''/b'' sampleResponse
            (snd (setCachedResponse sampleStringify localManager ''deploy1'' ''/a'' sampleResponse
                    localWorld)))) =
     [(MetricsClient, Select 1), (MetricsClient, Set ''health'' ''health''),
      (OpsClient, Exists [''deploy1'']),
      (OpsClient, HSet ''deploy1'' ''/a'' (sampleStringify sampleResponse)),
      (OpsClient, Expire ''deploy1'' 3600),
      (OpsClient, Exists [''deploy1'']),
      (OpsClient, HSet ''deploy1'' ''/b'' (sampleStringify sampleResponse))]
   \<and> current_db OpsClient
        (snd (setCachedResponse sampleStringify localManager ''deploy1'' ''/a'' sampleResponse
                localWorld)) ''deploy1''
       = Some (Entry (RHash [(''/a'', sampleStringify sampleResponse)]) (Some 3600))"
proof -
  have en: "isEnabled localManager"
    by (simp add: localManager_eq isEnabled_def)
  have w: "up (opsConn localWorld)" "current_db OpsClient localWorld ''deploy1'' = None"
    by (simp_all add: eval_defs)
  from setCachedResponse_expires_new_key_only [OF en w(1), where expiryKey = "''deploy1''"
      and url = "''/a''" and ?url2.0 = "''/b''" and JSON_stringify = sampleStringify
      and response = sampleResponse and ?response2.0 = sampleResponse] w(2)
  show ?thesis
    by (simp add: issued_localWorld DEFAULT_EXPIRY_def)
qed

text \<open>
  Claim C4. In enabled mode, with the ops connection up and the expiry key absent or a
  hash, \<open>setCachedResponse\<close> followed by \<open>getCachedResponse\<close> on the same expiry key and
  url returns the response that was stored, for every response that the two JSON
  functions of the language carry through a round trip (what being JSON-serializable
  means) and whose JSON text is not empty.
\<close>

theorem cache_round_trip:
  assumes en: "isEnabled m" and upo: "up (opsConn w)"
    and hash: "hash_at (current_db OpsClient w) expiryKey = Inr h"
    and codec: "JSON_parse (JSON_stringify response) = Some response"
    and ne: "JSON_stringify response \<noteq> []"
  shows "fst (getCachedResponse JSON_parse m expiryKey url
                (snd (setCachedResponse JSON_stringify m expiryKey url response w)))
         = Inr (Some response)"
proof -
  let ?w' = "snd (setCachedResponse JSON_stringify m expiryKey url response w)"
  have w': "up (opsConn ?w')"
    "hash_at (current_db OpsClient ?w') expiryKey
       = Inr (AList.update url (JSON_stringify response) h)"
    using upo hash
    by (simp_all add: setCachedResponse_enabled [OF en upo] hash_at_def current_db_def conn_def)
  show ?thesis
    using en w' codec ne
    by (simp add: getCachedResponse_def hGet_result conn_def andThen_def resolved_def
        update_conv' truthy_def)
qed

theorem cache_round_trip_witness:
  "fst (getCachedResponse sampleParse localManager ''deploy1'' ''/a''
         (snd (setCachedResponse sampleStringify localManager ''deploy1'' ''/a'' sampleResponse
                 localWorld)))
   = Inr (Some \<lparr>statusCode = 200, body = ''update available''\<rparr>)"
proof -
  have en: "isEnabled localManager"
    by (simp add: localManager_eq isEnabled_def)
  have w: "up (opsConn localWorld)"
    "hash_at (current_db OpsClient localWorld) ''deploy1'' = Inr []"
    by (simp_all add: eval_defs)
  have ne: "sampleStringify sampleResponse \<noteq> []"
    by (simp add: sampleStringify_def)
  from cache_round_trip [where JSON_parse = sampleParse and JSON_stringify = sampleStringify
      and response = sampleResponse and url = "''/a''", OF en w sample_round_trip ne]
  show ?thesis
    by (simp add: sampleResponse_def)
qed

end
